theory Spec2Isabelle
  imports Main
begin

section \<open>Values\<close>

text \<open>
  The value \<open>request.json\<close> hands to the views. A JSON object is the Python dict it was
  parsed into, written as an association list that is only ever read with \<open>map_of\<close>.
  A Python float is represented by the text \<open>str\<close> gives it, the shortest text that reads
  back as the same float, so no floating-point arithmetic is involved.
\<close>

datatype json =
    JNull
  | JBool bool
  | JInt int
  | JFloat string
  | JString string
  | JArray "json list"
  | JObject "(string \<times> json) list"

text \<open>
  \<open>class HttpError(Exception)\<close> with its \<open>status_code\<close> and \<open>message\<close>, and the
  other exceptions that the libraries and the language raise on the paths of \<open>server.py\<close>:
  \<open>pydantic.ValidationError\<close> with the list \<open>errors()\<close> gives, the \<open>TypeError\<close> of
  \<open>model(**raw_data)\<close> on a value that is no mapping or that binds a parameter twice, the
  \<open>KeyError\<close> of \<open>d[k]\<close>, \<open>sqlalchemy.exc.IntegrityError\<close> for a violated constraint
  of the table, \<open>sqlalchemy.exc.DataError\<close> for a value out of range in the store, and the
  \<open>ValueError\<close> of the PostgreSQL driver for a string it cannot send.
\<close>

datatype exn =
    HttpError nat json
  | ValidationError "json list"
  | TypeError
  | KeyError
  | IntegrityError
  | DataError
  | ValueError

text \<open>\<open>d[k]\<close> and \<open>d.get(k)\<close> on a dict whose values are \<open>Optional[str]\<close>.\<close>

definition getitem :: "(string \<times> 'v) list \<Rightarrow> string \<Rightarrow> exn + 'v" where
  "getitem d k = (case map_of d k of None \<Rightarrow> Inl KeyError | Some v \<Rightarrow> Inr v)"

definition dict_get :: "(string \<times> string option) list \<Rightarrow> string \<Rightarrow> string option" where
  "dict_get d k = (case map_of d k of None \<Rightarrow> None | Some v \<Rightarrow> v)"

text \<open>Truth value of an \<open>Optional[str]\<close>: \<open>None\<close> and the empty string are false.\<close>

definition truthy :: "string option \<Rightarrow> bool" where
  "truthy v = (case v of None \<Rightarrow> False | Some s \<Rightarrow> s \<noteq> [])"

section \<open>Decimal text of integers\<close>

definition digit_char :: "nat \<Rightarrow> char" where
  "digit_char d = ''0123456789'' ! d"

fun str_nat :: "nat \<Rightarrow> string" where
  "str_nat n = (if n < 10 then [digit_char n] else str_nat (n div 10) @ [digit_char (n mod 10)])"

declare str_nat.simps [simp del]

text \<open>\<open>str(i)\<close> for a Python int.\<close>

definition str_int :: "int \<Rightarrow> string" where
  "str_int i = (if i < 0 then CHR ''-'' # str_nat (nat (- i)) else str_nat (nat i))"

text \<open>\<open>'%0wd' % n\<close> for a natural number.\<close>

definition zero_pad :: "nat \<Rightarrow> nat \<Rightarrow> string" where
  "zero_pad w n = replicate (w - length (str_nat n)) (CHR ''0'') @ str_nat n"

section \<open>The schema validator\<close>

text \<open>
  \<open>CreateAd\<close> and \<open>PatchAd\<close> are pydantic models read with the pydantic 1 rules that
  \<open>server.py\<close> relies on (\<open>.dict()\<close>, and \<open>Optional[str]\<close> without a default meaning
  "may be left out"). Each model is its list of fields in declaration order, with a flag
  saying whether the field is required.
\<close>

datatype model = CreateAd | PatchAd

fun model_fields :: "model \<Rightarrow> (string \<times> bool) list" where
  "model_fields CreateAd = [(''ad_name'', True), (''ad_body'', True), (''ad_owner'', True)]"
| "model_fields PatchAd = [(''ad_name'', False), (''ad_body'', False), (''ad_owner'', False)]"

text \<open>One entry of \<open>ValidationError.errors()\<close>: field path, message and error kind.\<close>

definition error_dict :: "string \<Rightarrow> string \<Rightarrow> string \<Rightarrow> json" where
  "error_dict loc msg kind =
     JObject [(''loc'', JArray [JString loc]), (''msg'', JString msg), (''type'', JString kind)]"

text \<open>
  pydantic's validator of a \<open>str\<close> field: a string is taken as it is, an int, a float and
  a bool (an int in Python) are converted with \<open>str\<close>, anything else is refused. The error
  is returned as (message, kind).
\<close>

fun str_validator :: "json \<Rightarrow> (string \<times> string) + string" where
  "str_validator (JString s) = Inr s"
| "str_validator (JInt i) = Inr (str_int i)"
| "str_validator (JFloat t) = Inr t"
| "str_validator (JBool b) = Inr (if b then ''True'' else ''False'')"
| "str_validator v = Inl (''str type expected'', ''type_error.str'')"

text \<open>
  One field of a model against the keyword arguments: a missing required field and a
  \<open>None\<close> for a required field are errors, a missing optional field takes the default
  \<open>None\<close>, and \<open>None\<close> is allowed for an optional field.
\<close>

definition validate_field :: "bool \<Rightarrow> json option \<Rightarrow> (string \<times> string) + string option" where
  "validate_field required v =
     (case v of
        None \<Rightarrow> if required then Inl (''field required'', ''value_error.missing'') else Inr None
      | Some JNull \<Rightarrow>
          if required then Inl (''none is not an allowed value'', ''type_error.none.not_allowed'')
          else Inr None
      | Some x \<Rightarrow> (case str_validator x of Inl e \<Rightarrow> Inl e | Inr s \<Rightarrow> Inr (Some s)))"

text \<open>
  All fields in declaration order, collecting the errors and the values. Keyword
  arguments that name no field are ignored.
\<close>

fun validate_model ::
  "(string \<times> bool) list \<Rightarrow> (string \<times> json) list \<Rightarrow> json list \<times> (string \<times> string option) list"
where
  "validate_model [] kwargs = ([], [])"
| "validate_model ((name, required) # fs) kwargs =
     (let (errs, vals) = validate_model fs kwargs in
      case validate_field required (map_of kwargs name) of
        Inl (msg, kind) \<Rightarrow> (error_dict name msg kind # errs, vals)
      | Inr v \<Rightarrow> (errs, (name, v) # vals))"

text \<open>
  \<open>model(**raw_data).dict()\<close>: unpacking a value that is no dict raises \<open>TypeError\<close>, and
  so does a dict with the key \<open>__pydantic_self__\<close>, the name of the first parameter of
  \<open>BaseModel.__init__(__pydantic_self__, **data)\<close> in pydantic 1, which would be bound
  twice; any field error raises \<open>ValidationError\<close>; otherwise the dict of all fields of the
  model.
\<close>

definition model_dict :: "model \<Rightarrow> json \<Rightarrow> exn + (string \<times> string option) list" where
  "model_dict m raw_data =
     (case raw_data of
        JObject kwargs \<Rightarrow>
          if map_of kwargs ''__pydantic_self__'' \<noteq> None then Inl TypeError
          else
            (let (errs, vals) = validate_model (model_fields m) kwargs in
             if errs \<noteq> [] then Inl (ValidationError errs) else Inr vals)
      | _ \<Rightarrow> Inl TypeError)"

text \<open>\<open>validate\<close>: only \<open>pydantic.ValidationError\<close> is caught and turned into \<open>HttpError(400, ...)\<close>.\<close>

definition validate :: "model \<Rightarrow> json \<Rightarrow> exn + (string \<times> string option) list" where
  "validate m raw_data =
     (case model_dict m raw_data of
        Inl (ValidationError errs) \<Rightarrow> Inl (HttpError 400 (JArray errs))
      | Inl e \<Rightarrow> Inl e
      | Inr d \<Rightarrow> Inr d)"

section \<open>The table of advertisements\<close>

text \<open>A naive \<open>datetime\<close>, as a column of type \<open>DateTime\<close> gives, and its \<open>isoformat()\<close>.\<close>

record datetime =
  year :: nat
  month :: nat
  day :: nat
  hour :: nat
  minute :: nat
  second :: nat
  microsecond :: nat

definition isoformat :: "datetime \<Rightarrow> string" where
  "isoformat t =
     zero_pad 4 (year t) @ ''-'' @ zero_pad 2 (month t) @ ''-'' @ zero_pad 2 (day t) @ ''T'' @
     zero_pad 2 (hour t) @ '':'' @ zero_pad 2 (minute t) @ '':'' @ zero_pad 2 (second t) @
     (if microsecond t \<noteq> 0 then ''.'' @ zero_pad 6 (microsecond t) else [])"

text \<open>
  A row of \<open>advertisements\<close>. The three text columns are \<open>nullable=False\<close>; \<open>created_at\<close>
  is filled by its server default at insertion and no view assigns it.
\<close>

record advertisement =
  id_col :: int
  ad_name :: string
  ad_body :: string
  ad_owner :: string
  created_at :: datetime

text \<open>
  The database: the rows of the table and the next value of the sequence behind the
  primary key.
\<close>

record db =
  rows :: "advertisement list"
  seq :: int

text \<open>The state after \<open>Base.metadata.create_all(engine)\<close> on a fresh database.\<close>

definition empty_db :: db where
  "empty_db = \<lparr>rows = [], seq = 1\<rparr>"

text \<open>
  What the store maintains: the primary key and \<open>ad_name\<close> are unique, and the sequence
  is ahead of every id handed out.
\<close>

definition wf_db :: "db \<Rightarrow> bool" where
  "wf_db d \<longleftrightarrow>
     distinct (map id_col (rows d)) \<and> distinct (map ad_name (rows d)) \<and>
     list_all (\<lambda>r. id_col r < seq d) (rows d)"

text \<open>
  The store is PostgreSQL (\<open>PG_DSN\<close>). Its driver refuses to send a string that contains
  a NUL character, raising \<open>ValueError\<close> before any statement reaches the server.
\<close>

definition has_nul :: "string \<Rightarrow> bool" where
  "has_nul s \<longleftrightarrow> CHR 0x00 \<in> set s"

definition param_has_nul :: "string option \<Rightarrow> bool" where
  "param_has_nul p = (case p of None \<Rightarrow> False | Some s \<Rightarrow> has_nul s)"

text \<open>
  The largest value of the sequence behind \<open>Column(Integer, primary_key=True)\<close>, a
  four-byte integer.
\<close>

definition int4_max :: int where
  "int4_max = 2147483647"

text \<open>
  \<open>session.add(Advertisement(...)); session.commit()\<close>: the INSERT. A parameter with a
  NUL character raises \<open>ValueError\<close> in the driver; a sequence past its largest value
  raises \<open>DataError\<close>; in both cases nothing changes. Otherwise the id is drawn from the
  sequence, which keeps its advance when the statement fails; a \<open>None\<close> in a
  \<open>nullable=False\<close> column, a duplicate primary key and a duplicate \<open>ad_name\<close> raise
  \<open>IntegrityError\<close> and leave the rows as they were.
\<close>

definition insert_ad ::
  "db \<Rightarrow> datetime \<Rightarrow> string option \<Rightarrow> string option \<Rightarrow> string option \<Rightarrow> (exn + advertisement) \<times> db"
where
  "insert_ad d now name body owner =
     (if param_has_nul name \<or> param_has_nul body \<or> param_has_nul owner then (Inl ValueError, d)
      else if int4_max < seq d then (Inl DataError, d)
      else
        (let new_id = seq d; d1 = d\<lparr>seq := seq d + 1\<rparr> in
         case (name, body, owner) of
           (Some n, Some b, Some ow) \<Rightarrow>
             if list_ex (\<lambda>r. id_col r = new_id) (rows d) \<or> list_ex (\<lambda>r. ad_name r = n) (rows d)
             then (Inl IntegrityError, d1)
             else
               (let ad = \<lparr>id_col = new_id, ad_name = n, ad_body = b, ad_owner = ow,
                          created_at = now\<rparr>
                in (Inr ad, d1\<lparr>rows := rows d @ [ad]\<rparr>))
         | _ \<Rightarrow> (Inl IntegrityError, d1)))"

text \<open>
  \<open>session.add(ad); session.commit()\<close> on a loaded and modified object: nothing is sent
  when no attribute changed; otherwise the UPDATE of the changed columns of the row with
  that primary key, which raises \<open>ValueError\<close> in the driver when a changed \<open>ad_name\<close> or
  \<open>ad_body\<close> contains a NUL character, and \<open>IntegrityError\<close> when the new \<open>ad_name\<close> is
  that of another row. A failed UPDATE writes nothing.
\<close>

definition update_ad :: "db \<Rightarrow> advertisement \<Rightarrow> advertisement \<Rightarrow> (exn + unit) \<times> db" where
  "update_ad d old new =
     (if new = old then (Inr (), d)
      else if (ad_name new \<noteq> ad_name old \<and> has_nul (ad_name new)) \<or>
              (ad_body new \<noteq> ad_body old \<and> has_nul (ad_body new))
      then (Inl ValueError, d)
      else if ad_name new \<noteq> ad_name old \<and>
              list_ex (\<lambda>r. id_col r \<noteq> id_col old \<and> ad_name r = ad_name new) (rows d)
      then (Inl IntegrityError, d)
      else (Inr (), d\<lparr>rows := map (\<lambda>r. if id_col r = id_col old then new else r) (rows d)\<rparr>))"

text \<open>\<open>session.delete(ad); session.commit()\<close>.\<close>

definition delete_ad :: "db \<Rightarrow> advertisement \<Rightarrow> db" where
  "delete_ad d ad = d\<lparr>rows := filter (\<lambda>r. id_col r \<noteq> id_col ad) (rows d)\<rparr>"

text \<open>\<open>get_ad\<close>: the lookup by primary key, or \<open>HttpError(404, 'advertisement not found')\<close>.\<close>

definition get_ad :: "db \<Rightarrow> int \<Rightarrow> exn + advertisement" where
  "get_ad d ad_id =
     (case find (\<lambda>r. id_col r = ad_id) (rows d) of
        None \<Rightarrow> Inl (HttpError 404 (JString ''advertisement not found''))
      | Some ad \<Rightarrow> Inr ad)"

section \<open>The views\<close>

text \<open>
  Each method of \<open>AdView\<close> takes the database and returns the dict it answers with, or the
  exception it raises, and the database it leaves. An exception inside
  \<open>with Session() as session\<close> closes the session without a commit.
\<close>

definition success :: json where
  "success = JObject [(''status'', JString ''success'')]"

definition AdView_get :: "db \<Rightarrow> int \<Rightarrow> (exn + json) \<times> db" where
  "AdView_get d ad_id =
     (case get_ad d ad_id of
        Inl e \<Rightarrow> (Inl e, d)
      | Inr ad \<Rightarrow>
          (Inr (JObject [(''ad_name'', JString (ad_name ad)), (''ad_body'', JString (ad_body ad)),
                         (''ad_owner'', JString (ad_owner ad)),
                         (''created_at'', JString (isoformat (created_at ad)))]), d))"

definition AdView_post :: "db \<Rightarrow> datetime \<Rightarrow> json \<Rightarrow> (exn + json) \<times> db" where
  "AdView_post d now request_json =
     (case validate CreateAd request_json of
        Inl e \<Rightarrow> (Inl e, d)
      | Inr validated \<Rightarrow>
          (case getitem validated ''ad_name'' of
             Inl e \<Rightarrow> (Inl e, d)
           | Inr name \<Rightarrow>
               (case getitem validated ''ad_body'' of
                  Inl e \<Rightarrow> (Inl e, d)
                | Inr body \<Rightarrow>
                    (case getitem validated ''ad_owner'' of
                       Inl e \<Rightarrow> (Inl e, d)
                     | Inr owner \<Rightarrow>
                         (case insert_ad d now name body owner of
                            (Inl e, d') \<Rightarrow> (Inl e, d')
                          | (Inr ad, d') \<Rightarrow>
                              (Inr (JObject [(''id'', JInt (id_col ad)),
                                             (''ad_name'', JString (ad_name ad))]), d'))))))"

text \<open>
  The two assignments of \<open>patch\<close>: each is guarded by the truth value of
  \<open>validated.get(...)\<close>, and \<open>ad_owner\<close> is never assigned.
\<close>

definition assign_name :: "(string \<times> string option) list \<Rightarrow> advertisement \<Rightarrow> advertisement" where
  "assign_name validated ad =
     (if truthy (dict_get validated ''ad_name'')
      then (case getitem validated ''ad_name'' of Inr (Some s) \<Rightarrow> ad\<lparr>ad_name := s\<rparr> | _ \<Rightarrow> ad)
      else ad)"

definition assign_body :: "(string \<times> string option) list \<Rightarrow> advertisement \<Rightarrow> advertisement" where
  "assign_body validated ad =
     (if truthy (dict_get validated ''ad_body'')
      then (case getitem validated ''ad_body'' of Inr (Some s) \<Rightarrow> ad\<lparr>ad_body := s\<rparr> | _ \<Rightarrow> ad)
      else ad)"

definition AdView_patch :: "db \<Rightarrow> int \<Rightarrow> json \<Rightarrow> (exn + json) \<times> db" where
  "AdView_patch d ad_id request_json =
     (case validate PatchAd request_json of
        Inl e \<Rightarrow> (Inl e, d)
      | Inr validated \<Rightarrow>
          (case get_ad d ad_id of
             Inl e \<Rightarrow> (Inl e, d)
           | Inr ad \<Rightarrow>
               (case update_ad d ad (assign_body validated (assign_name validated ad)) of
                  (Inl e, d') \<Rightarrow> (Inl e, d')
                | (Inr _, d') \<Rightarrow> (Inr success, d'))))"

definition AdView_delete :: "db \<Rightarrow> int \<Rightarrow> (exn + json) \<times> db" where
  "AdView_delete d ad_id =
     (case get_ad d ad_id of
        Inl e \<Rightarrow> (Inl e, d)
      | Inr ad \<Rightarrow> (Inr success, delete_ad d ad))"

section \<open>Routing and the error handler\<close>

text \<open>
  A response is a status code with a JSON body, or the page Flask answers with status 500
  when a view raises an exception that has no registered handler.
\<close>

datatype response = JsonResponse nat json | InternalServerError

fun status_code :: "response \<Rightarrow> nat" where
  "status_code (JsonResponse c b) = c"
| "status_code InternalServerError = 500"

text \<open>\<open>http_error_handler\<close>, registered for \<open>HttpError\<close>.\<close>

definition http_error_handler :: "nat \<Rightarrow> json \<Rightarrow> response" where
  "http_error_handler code message =
     JsonResponse code (JObject [(''status'', JString ''error''), (''reason'', message)])"

text \<open>What Flask makes of the outcome of a view.\<close>

fun respond :: "exn + json \<Rightarrow> response" where
  "respond (Inr body) = JsonResponse 200 body"
| "respond (Inl (HttpError code message)) = http_error_handler code message"
| "respond (Inl e) = InternalServerError"

text \<open>The two URL rules: \<open>/ads/\<close> for POST, \<open>/ads/<int:ad_id>\<close> for GET, PATCH and DELETE.\<close>

datatype request = POST json | GET int | PATCH int json | DELETE int

fun view :: "db \<Rightarrow> datetime \<Rightarrow> request \<Rightarrow> (exn + json) \<times> db" where
  "view d now (POST request_json) = AdView_post d now request_json"
| "view d now (GET ad_id) = AdView_get d ad_id"
| "view d now (PATCH ad_id request_json) = AdView_patch d ad_id request_json"
| "view d now (DELETE ad_id) = AdView_delete d ad_id"

definition handle :: "db \<Rightarrow> datetime \<Rightarrow> request \<Rightarrow> response \<times> db" where
  "handle d now req = (case view d now req of (r, d') \<Rightarrow> (respond r, d'))"

text \<open>A sequence of requests, each with the time the store reads as \<open>now()\<close>.\<close>

fun serve :: "db \<Rightarrow> (datetime \<times> request) list \<Rightarrow> db" where
  "serve d [] = d"
| "serve d ((now, req) # reqs) = serve (snd (handle d now req)) reqs"

text \<open>
  An id that the sequence has passed and that no row carries: it was handed out (or skipped)
  and is not stored.
\<close>

definition retired :: "int \<Rightarrow> db \<Rightarrow> bool" where
  "retired ad_id d \<longleftrightarrow> ad_id < seq d \<and> ad_id \<notin> id_col ` set (rows d)"


section \<open>Concrete states and requests\<close>

text \<open>The answer of \<open>http_error_handler\<close> to \<open>HttpError(404, 'advertisement not found')\<close>.\<close>

definition not_found :: response where
  "not_found =
     JsonResponse 404
       (JObject [(''status'', JString ''error''), (''reason'', JString ''advertisement not found'')])"

definition example_time :: datetime where
  "example_time =
     \<lparr>year = 2023, month = 1, day = 5, hour = 9, minute = 3, second = 7, microsecond = 0\<rparr>"

definition example_ad1 :: advertisement where
  "example_ad1 =
     \<lparr>id_col = 1, ad_name = ''x'', ad_body = ''y'', ad_owner = ''z'', created_at = example_time\<rparr>"

definition example_ad2 :: advertisement where
  "example_ad2 =
     \<lparr>id_col = 2, ad_name = ''b'', ad_body = ''c'', ad_owner = ''z'', created_at = example_time\<rparr>"

definition example_db1 :: db where
  "example_db1 = \<lparr>rows = [example_ad1], seq = 2\<rparr>"

definition example_db2 :: db where
  "example_db2 = \<lparr>rows = [example_ad1, example_ad2], seq = 3\<rparr>"

definition example_payload :: json where
  "example_payload =
     JObject [(''ad_name'', JString ''x''), (''ad_body'', JString ''y''), (''ad_owner'', JString ''z'')]"

section \<open>The validator on objects and on other values\<close>



lemma validate_non_object:
  assumes "\<forall>kwargs. raw \<noteq> JObject kwargs"
  shows "validate m raw = Inl TypeError"
  using assms by (cases raw) (simp_all add: validate_def model_dict_def)

lemma validate_model_keys:
  "fst (validate_model fs kw) = [] \<Longrightarrow> map fst (snd (validate_model fs kw)) = map fst fs"
  by (induction fs) (auto split: prod.splits sum.splits)

lemma validate_model_errs:
  "fst (validate_model fs kw) \<noteq> [] \<longleftrightarrow>
     (\<exists>(name, req) \<in> set fs. isl (validate_field req (map_of kw name)))"
  by (induction fs) (auto split: prod.splits sum.splits)

lemma validate_object:
  "validate m (JObject kw) =
     (if map_of kw ''__pydantic_self__'' \<noteq> None then Inl TypeError
      else if fst (validate_model (model_fields m) kw) \<noteq> []
      then Inl (HttpError 400 (JArray (fst (validate_model (model_fields m) kw))))
      else Inr (snd (validate_model (model_fields m) kw)))"
  by (simp add: validate_def model_dict_def split: prod.splits)

lemma validate_outcome:
  "(\<exists>validated. validate m raw = Inr validated) \<or>
   (\<exists>errs. errs \<noteq> [] \<and> validate m raw = Inl (HttpError 400 (JArray errs))) \<or>
   validate m raw = Inl TypeError"
proof (cases "\<exists>kw. raw = JObject kw")
  case True
  then obtain kw where "raw = JObject kw"
    by blast
  then show ?thesis
    by (cases "map_of kw ''__pydantic_self__''";
        cases "fst (validate_model (model_fields m) kw) = []") (simp_all add: validate_object)
next
  case False
  then have "validate m raw = Inl TypeError"
    by (simp add: validate_non_object)
  then show ?thesis
    by simp
qed

lemma validate_TypeError_iff:
  "validate m raw = Inl TypeError \<longleftrightarrow>
     (\<forall>kw. raw \<noteq> JObject kw) \<or> (\<exists>kw. raw = JObject kw \<and> map_of kw ''__pydantic_self__'' \<noteq> None)"
proof (cases "\<exists>kw. raw = JObject kw")
  case True
  then obtain kw where "raw = JObject kw"
    by blast
  then show ?thesis
    by (cases "map_of kw ''__pydantic_self__''";
        cases "fst (validate_model (model_fields m) kw) = []") (simp_all add: validate_object)
next
  case False
  then show ?thesis
    by (simp add: validate_non_object)
qed

lemma str_int_1: "str_int 1 = ''1''"
  by code_simp

lemma validate_field_required_refused:
  assumes "v = None \<or> v = Some JNull \<or> (\<exists>xs. v = Some (JArray xs)) \<or> (\<exists>kvs. v = Some (JObject kvs))"
  shows "isl (validate_field True v)"
  using assms by (auto simp: validate_field_def)

lemma validate_model_value:
  assumes "fst (validate_model fs kw) = []" and "distinct (map fst fs)" and "(k, req) \<in> set fs"
  shows "validate_field req (map_of kw k) = Inr (the (map_of (snd (validate_model fs kw)) k)) \<and>
         map_of (snd (validate_model fs kw)) k \<noteq> None"
  using assms
proof (induction fs)
  case Nil
  then show ?case by simp
next
  case (Cons f fs)
  obtain name r where f: "f = (name, r)" by (cases f)
  obtain errs vals where vm: "validate_model fs kw = (errs, vals)" by (cases "validate_model fs kw")
  from Cons.prems(1) f vm obtain v where
    vf: "validate_field r (map_of kw name) = Inr v" and errs: "errs = []"
    by (auto split: sum.splits prod.splits)
  show ?case
  proof (cases "k = name")
    case True
    with Cons.prems(2,3) f have "req = r"
      by (auto simp: image_iff)
    with True f vm vf show ?thesis
      by simp
  next
    case False
    with Cons.prems(3) f have mem: "(k, req) \<in> set fs" by simp
    from Cons.prems(2) have dist: "distinct (map fst fs)" by simp
    from vm errs have "fst (validate_model fs kw) = []" by simp
    from this dist mem have "validate_field req (map_of kw k) = Inr (the (map_of (snd (validate_model fs kw)) k)) \<and>
         map_of (snd (validate_model fs kw)) k \<noteq> None"
      by (rule Cons.IH)
    with False f vm vf show ?thesis
      by simp
  qed
qed

lemma model_fields_cases:
  "k \<in> {''ad_name'', ''ad_body'', ''ad_owner''} \<Longrightarrow> \<exists>req. (k, req) \<in> set (model_fields m)"
  by (cases m) auto

lemma validate_value:
  assumes "validate m (JObject kwargs) = Inr d" and "k \<in> {''ad_name'', ''ad_body'', ''ad_owner''}"
  shows "\<exists>req v. validate_field req (map_of kwargs k) = Inr v \<and> map_of d k = Some v"
proof -
  from assms(1) have e: "fst (validate_model (model_fields m) kwargs) = []"
    and d: "d = snd (validate_model (model_fields m) kwargs)"
    by (auto simp: validate_object split: if_splits)
  from model_fields_cases[OF assms(2)] obtain req where r: "(k, req) \<in> set (model_fields m)"
    by blast
  have "distinct (map fst (model_fields m))"
    by (cases m) simp_all
  from validate_model_value[OF e this r] d show ?thesis
    by auto
qed

section \<open>Lookups and the operations of the store\<close>

lemma find_Some_D: "find P xs = Some x \<Longrightarrow> x \<in> set xs \<and> P x"
  by (induction xs) (auto split: if_splits)

lemma get_ad_Inr_D: "get_ad d ad_id = Inr ad \<Longrightarrow> ad \<in> set (rows d) \<and> id_col ad = ad_id"
  by (auto simp: get_ad_def split: option.splits dest: find_Some_D)

lemma get_ad_Inr_iff:
  "ad_id \<in> id_col ` set (rows d) \<longleftrightarrow> (\<exists>ad. get_ad d ad_id = Inr ad)"
  by (auto simp: get_ad_def find_None_iff split: option.splits dest: find_Some_D)

lemma get_ad_Inl:
  "ad_id \<notin> id_col ` set (rows d) \<Longrightarrow>
     get_ad d ad_id = Inl (HttpError 404 (JString ''advertisement not found''))"
  by (auto simp: get_ad_def find_None_iff split: option.splits)





text \<open>Whatever the INSERT does, the rows it leaves are the old ones, or the old ones and a new last row.\<close>

lemma insert_ad_rows:
  "rows (snd (insert_ad d now name body owner)) = rows d \<or>
   (\<exists>n b ow. name = Some n \<and> body = Some b \<and> owner = Some ow \<and>
      fst (insert_ad d now name body owner) =
        Inr \<lparr>id_col = seq d, ad_name = n, ad_body = b, ad_owner = ow, created_at = now\<rparr> \<and>
      \<not> list_ex (\<lambda>r. id_col r = seq d) (rows d) \<and> \<not> list_ex (\<lambda>r. ad_name r = n) (rows d) \<and>
      rows (snd (insert_ad d now name body owner)) =
        rows d @ [\<lparr>id_col = seq d, ad_name = n, ad_body = b, ad_owner = ow, created_at = now\<rparr>])"
  by (auto simp: insert_ad_def Let_def split: option.splits)

lemma insert_ad_seq:
  "seq d \<le> seq (snd (insert_ad d now name body owner)) \<and>
   (rows (snd (insert_ad d now name body owner)) \<noteq> rows d \<longrightarrow>
      seq (snd (insert_ad d now name body owner)) = seq d + 1)"
  by (auto simp: insert_ad_def Let_def split: option.splits)

section \<open>The assignments of patch and the UPDATE\<close>

lemma assign_id [simp]: "id_col (assign_body v (assign_name v ad)) = id_col ad"
  by (simp add: assign_body_def assign_name_def split: sum.splits option.splits)

lemma assign_owner [simp]: "ad_owner (assign_body v (assign_name v ad)) = ad_owner ad"
  by (simp add: assign_body_def assign_name_def split: sum.splits option.splits)

lemma assign_created_at [simp]: "created_at (assign_body v (assign_name v ad)) = created_at ad"
  by (simp add: assign_body_def assign_name_def split: sum.splits option.splits)





lemma ids_map_replace:
  assumes "id_col new = i"
  shows "map id_col (map (\<lambda>r. if id_col r = i then new else r) xs) = map id_col xs"
  using assms by (induction xs) auto



lemma validate_PatchAd_empty:
  "validate PatchAd (JObject []) = Inr [(''ad_name'', None), (''ad_body'', None), (''ad_owner'', None)]"
  by (simp add: validate_def model_dict_def validate_field_def)





section \<open>The invariant of the store\<close>

text \<open>
  Every request keeps the database well formed, so every state reached from the empty
  database is well formed.
\<close>

lemma wf_update:
  assumes "distinct (map id_col xs)" and "distinct (map ad_name xs)"
    and "old \<in> set xs" and "id_col new = id_col old"
    and "ad_name new = ad_name old \<or> (\<forall>r \<in> set xs. id_col r \<noteq> id_col old \<longrightarrow> ad_name r \<noteq> ad_name new)"
  shows "distinct (map ad_name (map (\<lambda>r. if id_col r = id_col old then new else r) xs))"
  using assms
proof (induction xs)
  case Nil
  then show ?case by simp
next
  case (Cons x xs)
  show ?case
  proof (cases "x = old")
    case True
    with Cons.prems(1) have other: "\<forall>r \<in> set xs. id_col r \<noteq> id_col old"
      by (auto simp: image_iff)
    then have same: "map (\<lambda>r. if id_col r = id_col old then new else r) xs = xs"
      by (simp add: map_idI)
    from Cons.prems(2,5) True other have "ad_name new \<notin> ad_name ` set xs"
      by auto
    with Cons.prems(2) True same show ?thesis
      by simp
  next
    case False
    with Cons.prems(3) have mem: "old \<in> set xs" by simp
    with Cons.prems(1) have ne: "id_col x \<noteq> id_col old"
      by auto
    from Cons.prems have ih: "distinct (map ad_name (map (\<lambda>r. if id_col r = id_col old then new else r) xs))"
      using mem by (intro Cons.IH) auto
    from Cons.prems(2) have xn: "ad_name x \<notin> ad_name ` set xs"
      by simp
    from Cons.prems(5) ne mem xn have "ad_name x \<noteq> ad_name new"
      by (auto simp: image_iff)
    with xn have "\<forall>r \<in> set xs. ad_name (if id_col r = id_col old then new else r) \<noteq> ad_name x"
      by (auto simp: image_iff)
    with ih ne show ?thesis
      by (auto simp: comp_def image_iff)
  qed
qed

lemma AdView_post_snd:
  "snd (AdView_post d now request_json) = d \<or>
   (\<exists>name body owner. snd (AdView_post d now request_json) = snd (insert_ad d now name body owner))"
  by (auto simp: AdView_post_def split: sum.splits prod.splits) (metis snd_conv)+

lemma wf_db_insert:
  assumes "wf_db d"
  shows "wf_db (snd (insert_ad d now name body owner))"
proof -
  let ?d' = "snd (insert_ad d now name body owner)"
  from assms have dist: "distinct (map id_col (rows d))" and names: "distinct (map ad_name (rows d))"
    and lt: "\<forall>r \<in> set (rows d). id_col r < seq d"
    by (simp_all add: wf_db_def list_all_iff)
  show ?thesis
  proof (cases "rows ?d' = rows d")
    case True
    with insert_ad_seq[of d now name body owner] dist names lt show ?thesis
      by (fastforce simp: wf_db_def list_all_iff)
  next
    case False
    with insert_ad_rows[of d now name body owner] obtain n b ow where
      r: "rows ?d' = rows d @ [\<lparr>id_col = seq d, ad_name = n, ad_body = b, ad_owner = ow, created_at = now\<rparr>]"
      and fresh: "\<not> list_ex (\<lambda>r. id_col r = seq d) (rows d)" "\<not> list_ex (\<lambda>r. ad_name r = n) (rows d)"
      by blast
    from False insert_ad_seq[of d now name body owner] have sq: "seq ?d' = seq d + 1"
      by simp
    from dist names lt fresh show ?thesis
      by (fastforce simp: wf_db_def list_all_iff list_ex_iff r sq)
  qed
qed

lemma wf_db_view:
  assumes "wf_db d"
  shows "wf_db (snd (view d now req))"
proof (cases req)
  case (POST j)
  with assms AdView_post_snd[of d now j] wf_db_insert[OF assms, of now] show ?thesis
    by auto
next
  case (GET i)
  with assms show ?thesis
    by (auto simp: AdView_get_def split: sum.splits)
next
  case (PATCH i j)
  show ?thesis
  proof (cases "validate PatchAd j")
    case (Inl e)
    with PATCH assms show ?thesis by (simp add: AdView_patch_def)
  next
    case v: (Inr v)
    show ?thesis
    proof (cases "get_ad d i")
      case (Inl e)
      with PATCH v assms show ?thesis by (simp add: AdView_patch_def)
    next
      case (Inr ad)
      let ?new = "assign_body v (assign_name v ad)"
      from Inr have mem: "ad \<in> set (rows d)" and i: "id_col ad = i"
        by (simp_all add: get_ad_Inr_D)
      have "wf_db (snd (update_ad d ad ?new))"
      proof (cases "fst (update_ad d ad ?new)")
        case (Inl e)
        then have "snd (update_ad d ad ?new) = d"
          by (auto simp: update_ad_def split: if_splits)
        with assms show ?thesis by simp
      next
        case ok: (Inr u)
        show ?thesis
        proof (cases "?new = ad")
          case True
          with assms show ?thesis by (simp add: update_ad_def)
        next
          case False
          with ok have free: "ad_name ?new = ad_name ad \<or>
              (\<forall>r \<in> set (rows d). id_col r \<noteq> id_col ad \<longrightarrow> ad_name r \<noteq> ad_name ?new)"
            by (auto simp: update_ad_def list_ex_iff split: if_splits)
          from False ok have upd: "snd (update_ad d ad ?new) =
              d\<lparr>rows := map (\<lambda>r. if id_col r = id_col ad then ?new else r) (rows d)\<rparr>"
            by (auto simp: update_ad_def split: if_splits)
          let ?rows' = "map (\<lambda>r. if id_col r = id_col ad then ?new else r) (rows d)"
          from assms have dist: "distinct (map id_col (rows d))"
            and names: "distinct (map ad_name (rows d))"
            and lt: "\<forall>r \<in> set (rows d). id_col r < seq d"
            by (simp_all add: wf_db_def list_all_iff)
          have ids': "map id_col ?rows' = map id_col (rows d)"
            by (rule ids_map_replace) simp
          have names': "distinct (map ad_name ?rows')"
            by (rule wf_update[OF dist names mem _ free]) simp
          from lt mem have lt': "\<forall>r \<in> set ?rows'. id_col r < seq d"
            by auto
          from dist ids' names' lt' show ?thesis
            unfolding upd wf_db_def by (simp add: list_all_iff del: map_map)
        qed
      qed
      with PATCH v Inr show ?thesis
        by (cases "update_ad d ad ?new") (auto simp: AdView_patch_def split: sum.splits)
    qed
  qed
next
  case (DELETE i)
  with assms show ?thesis
    by (auto simp: wf_db_def AdView_delete_def delete_ad_def list_all_iff distinct_map_filter
        split: sum.splits)
qed

lemma wf_db_empty: "wf_db empty_db"
  by (simp add: wf_db_def empty_db_def)

lemma wf_db_handle: "wf_db d \<Longrightarrow> wf_db (snd (handle d now req))"
  using wf_db_view[of d now req] by (cases "view d now req") (simp add: handle_def)

lemma wf_db_serve: "wf_db d \<Longrightarrow> wf_db (serve d reqs)"
proof (induction reqs arbitrary: d)
  case Nil
  then show ?case by simp
next
  case (Cons a reqs)
  obtain now req where "a = (now, req)" by (cases a)
  with Cons show ?case by (simp add: wf_db_handle)
qed

text \<open>An id that is retired stays retired: the sequence never hands it out again.\<close>

lemma retired_insert:
  assumes "retired ad_id d"
  shows "retired ad_id (snd (insert_ad d now name body owner))"
proof -
  let ?d' = "snd (insert_ad d now name body owner)"
  from assms have lt: "ad_id < seq d" and gone: "ad_id \<notin> id_col ` set (rows d)"
    by (simp_all add: retired_def)
  from lt insert_ad_seq[of d now name body owner] have lt': "ad_id < seq ?d'"
    by simp
  from insert_ad_rows[of d now name body owner] lt gone have "ad_id \<notin> id_col ` set (rows ?d')"
    by auto
  with lt' show ?thesis
    by (simp add: retired_def)
qed

lemma retired_view:
  assumes "retired ad_id d"
  shows "retired ad_id (snd (view d now req))"
proof (cases req)
  case (POST j)
  with assms AdView_post_snd[of d now j] retired_insert[OF assms, of now] show ?thesis
    by auto
next
  case (GET i)
  with assms show ?thesis
    by (auto simp: AdView_get_def split: sum.splits)
next
  case (PATCH i j)
  with assms show ?thesis
    by (auto simp: retired_def AdView_patch_def update_ad_def
        split: sum.splits prod.splits if_splits dest!: get_ad_Inr_D)
next
  case (DELETE i)
  with assms show ?thesis
    by (auto simp: retired_def AdView_delete_def delete_ad_def split: sum.splits)
qed

lemma retired_handle: "retired ad_id d \<Longrightarrow> retired ad_id (snd (handle d now req))"
  using retired_view[of ad_id d now req] by (cases "view d now req") (simp add: handle_def)

lemma retired_serve: "retired ad_id d \<Longrightarrow> retired ad_id (serve d reqs)"
proof (induction reqs arbitrary: d)
  case Nil
  then show ?case by simp
next
  case (Cons a reqs)
  obtain now req where "a = (now, req)" by (cases a)
  with Cons show ?case by (simp add: retired_handle)
qed

section \<open>Create, then read\<close>




section \<open>A create with a stored name\<close>




section \<open>Requests on an id that is not stored\<close>

text \<open>
  C4, as the claim states it, fails for PATCH: \<open>patch\<close> validates the body before it looks
  the id up, so PATCH on a missing id with a body that fails validation is answered 400
  with the error list, not 404.
\<close>

theorem patch_missing_id_counterexample:
  "1 \<notin> id_col ` set (rows empty_db) \<and>
   handle empty_db example_time (PATCH 1 (JObject [(''ad_name'', JArray [])])) =
     (JsonResponse 400
        (JObject [(''status'', JString ''error''),
                  (''reason'', JArray [error_dict ''ad_name'' ''str type expected'' ''type_error.str''])]),
      empty_db)"
  by (simp add: empty_db_def handle_def AdView_patch_def validate_def model_dict_def
      validate_field_def http_error_handler_def)

text \<open>
  C4, amended: for every id that does not reference a stored advertisement, GET and DELETE
  on that id answer 404 with body \<open>{status: "error", reason: "advertisement not found"}\<close>,
  and so does PATCH whenever its body passes validation. A PATCH whose body fails
  validation is answered with that failure instead, although the id is missing: 400 with
  the error list as reason when a field of the object is refused, and the 500 page when
  the body is not a JSON object or has the key \<open>__pydantic_self__\<close>. These are the only
  outcomes, and the store is unchanged in each.
\<close>

theorem missing_id_not_found:
  assumes "ad_id \<notin> id_col ` set (rows d)"
  shows "handle d now (GET ad_id) = (not_found, d) \<and>
         handle d now (DELETE ad_id) = (not_found, d) \<and>
         (\<forall>request_json.
            ((\<exists>validated. validate PatchAd request_json = Inr validated) \<longrightarrow>
               handle d now (PATCH ad_id request_json) = (not_found, d)) \<and>
            (\<forall>errs. validate PatchAd request_json = Inl (HttpError 400 (JArray errs)) \<longrightarrow>
               handle d now (PATCH ad_id request_json) =
                 (JsonResponse 400
                    (JObject [(''status'', JString ''error''), (''reason'', JArray errs)]), d)) \<and>
            (validate PatchAd request_json = Inl TypeError \<longrightarrow>
               handle d now (PATCH ad_id request_json) = (InternalServerError, d)) \<and>
            ((\<exists>validated. validate PatchAd request_json = Inr validated) \<or>
             (\<exists>errs. errs \<noteq> [] \<and>
                validate PatchAd request_json = Inl (HttpError 400 (JArray errs))) \<or>
             validate PatchAd request_json = Inl TypeError) \<and>
            (validate PatchAd request_json = Inl TypeError \<longleftrightarrow>
               (\<forall>kwargs. request_json \<noteq> JObject kwargs) \<or>
               (\<exists>kwargs. request_json = JObject kwargs \<and>
                  map_of kwargs ''__pydantic_self__'' \<noteq> None)))"
proof (intro conjI allI)
  show "handle d now (GET ad_id) = (not_found, d)"
    using get_ad_Inl[OF assms]
    by (simp add: handle_def AdView_get_def not_found_def http_error_handler_def)
  show "handle d now (DELETE ad_id) = (not_found, d)"
    using get_ad_Inl[OF assms]
    by (simp add: handle_def AdView_delete_def not_found_def http_error_handler_def)
next
  fix request_json
  show "(\<exists>validated. validate PatchAd request_json = Inr validated) \<longrightarrow>
          handle d now (PATCH ad_id request_json) = (not_found, d)"
    using get_ad_Inl[OF assms]
    by (auto simp: handle_def AdView_patch_def not_found_def http_error_handler_def)
  show "validate PatchAd request_json = Inl (HttpError 400 (JArray errs)) \<longrightarrow>
          handle d now (PATCH ad_id request_json) =
            (JsonResponse 400
               (JObject [(''status'', JString ''error''), (''reason'', JArray errs)]), d)" for errs
    by (simp add: handle_def AdView_patch_def http_error_handler_def)
  show "validate PatchAd request_json = Inl TypeError \<longrightarrow>
          handle d now (PATCH ad_id request_json) = (InternalServerError, d)"
    by (simp add: handle_def AdView_patch_def)
  show "(\<exists>validated. validate PatchAd request_json = Inr validated) \<or>
        (\<exists>errs. errs \<noteq> [] \<and>
           validate PatchAd request_json = Inl (HttpError 400 (JArray errs))) \<or>
        validate PatchAd request_json = Inl TypeError"
    by (rule validate_outcome)
  show "validate PatchAd request_json = Inl TypeError \<longleftrightarrow>
          (\<forall>kwargs. request_json \<noteq> JObject kwargs) \<or>
          (\<exists>kwargs. request_json = JObject kwargs \<and>
             map_of kwargs ''__pydantic_self__'' \<noteq> None)"
    by (rule validate_TypeError_iff)
qed

theorem missing_id_not_found_witness:
  "7 \<notin> id_col ` set (rows example_db1) \<and>
   handle example_db1 example_time (GET 7) = (not_found, example_db1) \<and>
   handle example_db1 example_time (DELETE 7) = (not_found, example_db1) \<and>
   handle example_db1 example_time (PATCH 7 (JObject [(''ad_name'', JString ''new'')])) =
     (not_found, example_db1) \<and>
   handle example_db1 example_time (PATCH 7 (JObject [(''ad_name'', JArray [])])) =
     (JsonResponse 400
        (JObject [(''status'', JString ''error''),
                  (''reason'', JArray [error_dict ''ad_name'' ''str type expected'' ''type_error.str''])]),
      example_db1) \<and>
   handle example_db1 example_time (PATCH 7 (JArray [JInt 1])) =
     (InternalServerError, example_db1)"
proof -
  have v: "validate PatchAd (JObject [(''ad_name'', JString ''new'')]) =
      Inr [(''ad_name'', Some ''new''), (''ad_body'', None), (''ad_owner'', None)]"
    by (simp add: validate_def model_dict_def validate_field_def)
  have e: "validate PatchAd (JObject [(''ad_name'', JArray [])]) =
      Inl (HttpError 400 (JArray [error_dict ''ad_name'' ''str type expected'' ''type_error.str'']))"
    by (simp add: validate_def model_dict_def validate_field_def)
  have t: "validate PatchAd (JArray [JInt 1]) = Inl TypeError"
    by (simp add: validate_def model_dict_def)
  have m: "7 \<notin> id_col ` set (rows example_db1)"
    by (simp add: example_db1_def example_ad1_def)
  note r = missing_id_not_found[OF m, of example_time]
  note p = r[THEN conjunct2, THEN conjunct2, THEN spec]
  have p1: "handle example_db1 example_time (PATCH 7 (JObject [(''ad_name'', JString ''new'')])) =
      (not_found, example_db1)"
    using p[of "JObject [(''ad_name'', JString ''new'')]", THEN conjunct1] v by simp
  have p2: "handle example_db1 example_time (PATCH 7 (JObject [(''ad_name'', JArray [])])) =
     (JsonResponse 400
        (JObject [(''status'', JString ''error''),
                  (''reason'', JArray [error_dict ''ad_name'' ''str type expected'' ''type_error.str''])]),
      example_db1)"
    using p[of "JObject [(''ad_name'', JArray [])]", THEN conjunct2, THEN conjunct1, THEN spec,
        of "[error_dict ''ad_name'' ''str type expected'' ''type_error.str'']"] e by simp
  have p3: "handle example_db1 example_time (PATCH 7 (JArray [JInt 1])) =
      (InternalServerError, example_db1)"
    using p[of "JArray [JInt 1]", THEN conjunct2, THEN conjunct2, THEN conjunct1] t by simp
  from m r[THEN conjunct1] r[THEN conjunct2, THEN conjunct1] p1 p2 p3 show ?thesis
    by simp
qed

section \<open>Create payloads that are refused\<close>

text \<open>
  C5, as the claim states it, fails for numbers and booleans: the validator of a \<open>str\<close>
  field converts them with \<open>str\<close>. POST of
  \<open>{"ad_name": 1, "ad_body": "y", "ad_owner": "z"}\<close> on the empty database answers 200 and
  stores the advertisement named \<open>1\<close>. It also fails for a payload with the key
  \<open>__pydantic_self__\<close>: POST of \<open>{"__pydantic_self__": 1}\<close>, which misses every required
  field, is answered with the 500 page.
\<close>

theorem post_number_counterexample:
  "handle empty_db example_time
     (POST (JObject [(''ad_name'', JInt 1), (''ad_body'', JString ''y''), (''ad_owner'', JString ''z'')])) =
   (JsonResponse 200 (JObject [(''id'', JInt 1), (''ad_name'', JString ''1'')]),
    \<lparr>rows = [\<lparr>id_col = 1, ad_name = ''1'', ad_body = ''y'', ad_owner = ''z'',
               created_at = example_time\<rparr>],
     seq = 2\<rparr>) \<and>
   map_of [(''__pydantic_self__'', JInt 1)] ''ad_name'' = None \<and>
   handle empty_db example_time (POST (JObject [(''__pydantic_self__'', JInt 1)])) =
     (InternalServerError, empty_db)"
  by (simp add: empty_db_def handle_def AdView_post_def validate_def model_dict_def
      validate_field_def getitem_def insert_ad_def Let_def str_int_1 param_has_nul_def
      has_nul_def int4_max_def)

text \<open>
  C5, amended: for every create payload that is a JSON object without the key
  \<open>__pydantic_self__\<close> and in which one of \<open>ad_name\<close>, \<open>ad_body\<close>, \<open>ad_owner\<close> is
  missing, or is null, an array or an object, POST answers
  400 with body \<open>{status: "error", reason: errs}\<close> where \<open>errs\<close> is a list of length at
  least 1, and the store is unchanged.
\<close>

theorem post_invalid_payload:
  assumes "map_of kwargs ''__pydantic_self__'' = None"
    and "k \<in> {''ad_name'', ''ad_body'', ''ad_owner''}"
    and "map_of kwargs k = None \<or> map_of kwargs k = Some JNull \<or>
         (\<exists>xs. map_of kwargs k = Some (JArray xs)) \<or> (\<exists>kvs. map_of kwargs k = Some (JObject kvs))"
  shows "\<exists>errs. handle d now (POST (JObject kwargs)) =
           (JsonResponse 400 (JObject [(''status'', JString ''error''), (''reason'', JArray errs)]), d) \<and>
         1 \<le> length errs"
proof -
  let ?errs = "fst (validate_model (model_fields CreateAd) kwargs)"
  have "isl (validate_field True (map_of kwargs k))"
    by (rule validate_field_required_refused[OF assms(3)])
  with assms(2) have "\<exists>(name, req) \<in> set (model_fields CreateAd). isl (validate_field req (map_of kwargs name))"
    by auto
  then have ne: "?errs \<noteq> []"
    by (simp only: validate_model_errs)
  with assms(1) have "validate CreateAd (JObject kwargs) = Inl (HttpError 400 (JArray ?errs))"
    by (simp add: validate_object)
  then have "handle d now (POST (JObject kwargs)) =
      (JsonResponse 400 (JObject [(''status'', JString ''error''), (''reason'', JArray ?errs)]), d)"
    by (simp add: handle_def AdView_post_def http_error_handler_def)
  moreover from ne have "1 \<le> length ?errs"
    by (cases ?errs) simp_all
  ultimately show ?thesis
    by blast
qed

theorem post_invalid_payload_witness:
  "map_of [(''ad_name'', JString ''x''), (''ad_owner'', JArray [])] ''ad_body'' = None \<and>
   (\<exists>errs. handle example_db1 example_time
              (POST (JObject [(''ad_name'', JString ''x''), (''ad_owner'', JArray [])])) =
            (JsonResponse 400 (JObject [(''status'', JString ''error''), (''reason'', JArray errs)]),
             example_db1) \<and>
          1 \<le> length errs)"
  using post_invalid_payload[of "[(''ad_name'', JString ''x''), (''ad_owner'', JArray [])]"
      "''ad_body''" example_db1 example_time]
  by simp

section \<open>What the validator returns\<close>

text \<open>
  C7, as the claim states it, fails in its last part: \<open>.dict()\<close> returns every field of
  the model. For the empty object, \<open>ad_name\<close> is absent from the input and present in the
  result, with value \<open>None\<close>.
\<close>

theorem validate_absent_field_counterexample:
  "map_of ([] :: (string \<times> json) list) ''ad_name'' = None \<and>
   validate PatchAd (JObject []) =
     Inr [(''ad_name'', None), (''ad_body'', None), (''ad_owner'', None)] \<and>
   ''ad_name'' \<in> fst ` set [(''ad_name'', None :: string option), (''ad_body'', None), (''ad_owner'', None)]"
  by (simp add: validate_def model_dict_def validate_field_def)

text \<open>
  C7, amended: for every input object that passes validation, the validator returns a dict
  whose keys are exactly \<open>ad_name\<close>, \<open>ad_body\<close>, \<open>ad_owner\<close>: unrecognized fields are
  dropped; a recognized field given as a string keeps its value; a recognized field that
  is absent (or null) is present in the result with value \<open>None\<close>; any other accepted
  value appears as the text \<open>str_validator\<close> gives.
\<close>

theorem validate_result:
  assumes "validate m (JObject kwargs) = Inr d"
  shows "map fst d = [''ad_name'', ''ad_body'', ''ad_owner''] \<and>
         (\<forall>k. k \<notin> {''ad_name'', ''ad_body'', ''ad_owner''} \<longrightarrow> map_of d k = None) \<and>
         (\<forall>k \<in> {''ad_name'', ''ad_body'', ''ad_owner''}.
            (\<forall>s. map_of kwargs k = Some (JString s) \<longrightarrow> map_of d k = Some (Some s)) \<and>
            (map_of kwargs k = None \<or> map_of kwargs k = Some JNull \<longrightarrow> map_of d k = Some None) \<and>
            (\<forall>v. map_of kwargs k = Some v \<and> v \<noteq> JNull \<longrightarrow>
               (\<exists>s. str_validator v = Inr s \<and> map_of d k = Some (Some s))))"
proof -
  from assms have e: "fst (validate_model (model_fields m) kwargs) = []"
    and d: "d = snd (validate_model (model_fields m) kwargs)"
    by (auto simp: validate_object split: if_splits)
  have keys: "map fst d = [''ad_name'', ''ad_body'', ''ad_owner'']"
    using validate_model_keys[OF e] d by (cases m) simp_all
  then have "set (map fst d) = {''ad_name'', ''ad_body'', ''ad_owner''}"
    by simp
  then have dropped: "\<forall>k. k \<notin> {''ad_name'', ''ad_body'', ''ad_owner''} \<longrightarrow> map_of d k = None"
    by (metis map_of_eq_None_iff set_map)
  have vals: "\<forall>k \<in> {''ad_name'', ''ad_body'', ''ad_owner''}.
            (\<forall>s. map_of kwargs k = Some (JString s) \<longrightarrow> map_of d k = Some (Some s)) \<and>
            (map_of kwargs k = None \<or> map_of kwargs k = Some JNull \<longrightarrow> map_of d k = Some None) \<and>
            (\<forall>v. map_of kwargs k = Some v \<and> v \<noteq> JNull \<longrightarrow>
               (\<exists>s. str_validator v = Inr s \<and> map_of d k = Some (Some s)))"
  proof
    fix k assume "k \<in> {''ad_name'', ''ad_body'', ''ad_owner''}"
    from validate_value[OF assms this] obtain req v where
      vf: "validate_field req (map_of kwargs k) = Inr v" and dk: "map_of d k = Some v"
      by blast
    from vf dk show "(\<forall>s. map_of kwargs k = Some (JString s) \<longrightarrow> map_of d k = Some (Some s)) \<and>
            (map_of kwargs k = None \<or> map_of kwargs k = Some JNull \<longrightarrow> map_of d k = Some None) \<and>
            (\<forall>v. map_of kwargs k = Some v \<and> v \<noteq> JNull \<longrightarrow>
               (\<exists>s. str_validator v = Inr s \<and> map_of d k = Some (Some s)))"
      by (auto simp: validate_field_def split: option.splits json.splits sum.splits if_splits)
  qed
  from keys dropped vals show ?thesis
    by blast
qed

theorem validate_result_witness:
  "validate PatchAd (JObject [(''color'', JString ''red''), (''ad_body'', JString ''y'')]) =
     Inr [(''ad_name'', None), (''ad_body'', Some ''y''), (''ad_owner'', None)] \<and>
   map fst [(''ad_name'', None), (''ad_body'', Some ''y''), (''ad_owner'', None :: string option)] =
     [''ad_name'', ''ad_body'', ''ad_owner''] \<and>
   map_of [(''ad_name'', None), (''ad_body'', Some ''y''), (''ad_owner'', None)] ''color'' = None \<and>
   map_of [(''ad_name'', None), (''ad_body'', Some ''y''), (''ad_owner'', None)] ''ad_body'' = Some (Some ''y'') \<and>
   map_of [(''ad_name'', None), (''ad_body'', Some ''y''), (''ad_owner'', None :: string option)] ''ad_name'' = Some None"
proof -
  have v: "validate PatchAd (JObject [(''color'', JString ''red''), (''ad_body'', JString ''y'')]) =
     Inr [(''ad_name'', None), (''ad_body'', Some ''y''), (''ad_owner'', None)]"
    by (simp add: validate_def model_dict_def validate_field_def)
  show ?thesis
    using validate_result[OF v] v by simp
qed

section \<open>Request bodies that are not objects\<close>

text \<open>
  C8, as the claim states it, fails: for a JSON array the unpacking \<open>model(**raw_data)\<close>
  raises \<open>TypeError\<close>, which \<open>validate\<close> does not catch, and the answer is the 500 page.
\<close>

theorem non_object_body_counterexample:
  "handle empty_db example_time (POST (JArray [])) = (InternalServerError, empty_db) \<and>
   status_code (fst (handle empty_db example_time (POST (JArray [])))) \<noteq> 400"
  by (simp add: handle_def AdView_post_def validate_def model_dict_def)

text \<open>
  C8, amended: for every request body that is not a JSON object, validation fails with a
  \<open>TypeError\<close> that is not turned into an \<open>HttpError\<close>; POST and PATCH with such a body
  are answered with status 500, not with 400 and an error list, and the store is unchanged.
\<close>

theorem non_object_body:
  assumes "\<forall>kwargs. request_json \<noteq> JObject kwargs"
  shows "validate m request_json = Inl TypeError \<and>
         handle d now (POST request_json) = (InternalServerError, d) \<and>
         handle d now (PATCH ad_id request_json) = (InternalServerError, d)"
  using validate_non_object[OF assms]
  by (simp add: handle_def AdView_post_def AdView_patch_def)

theorem non_object_body_witness:
  "(\<forall>kwargs. JString ''abc'' \<noteq> JObject kwargs) \<and>
   validate CreateAd (JString ''abc'') = Inl TypeError \<and>
   handle example_db1 example_time (POST (JString ''abc'')) = (InternalServerError, example_db1) \<and>
   handle example_db1 example_time (PATCH 1 (JString ''abc'')) = (InternalServerError, example_db1)"
  using non_object_body[of "JString ''abc''" CreateAd example_db1 example_time 1]
  by simp

section \<open>Delete, then read\<close>

text \<open>
  C6: for every existing id, DELETE on it answers 200 with \<open>{status: "success"}\<close> and
  removes the record (the other rows stay), so that a following GET on the same id answers
  404 with "advertisement not found". The removal is permanent: when the id was handed out
  by the sequence, GET on it answers 404 after any further sequence of requests.
\<close>

theorem delete_then_get:
  assumes "ad_id \<in> id_col ` set (rows d)"
  shows "fst (handle d now (DELETE ad_id)) = JsonResponse 200 success \<and>
         rows (snd (handle d now (DELETE ad_id))) = filter (\<lambda>r. id_col r \<noteq> ad_id) (rows d) \<and>
         fst (handle (snd (handle d now (DELETE ad_id))) now' (GET ad_id)) = not_found \<and>
         (ad_id < seq d \<longrightarrow>
            (\<forall>reqs. fst (handle (serve (snd (handle d now (DELETE ad_id))) reqs) now' (GET ad_id)) =
               not_found))"
proof -
  from assms obtain ad where g: "get_ad d ad_id = Inr ad"
    by (auto simp: get_ad_Inr_iff)
  then have i: "id_col ad = ad_id"
    by (simp add: get_ad_Inr_D)
  let ?d' = "d\<lparr>rows := filter (\<lambda>r. id_col r \<noteq> ad_id) (rows d)\<rparr>"
  have del: "handle d now (DELETE ad_id) = (JsonResponse 200 success, ?d')"
    using g i by (simp add: handle_def AdView_delete_def delete_ad_def)
  have gone: "ad_id \<notin> id_col ` set (rows ?d')"
    by auto
  have get: "\<And>e. ad_id \<notin> id_col ` set (rows e) \<Longrightarrow> fst (handle e now' (GET ad_id)) = not_found"
    by (simp add: handle_def AdView_get_def get_ad_Inl not_found_def http_error_handler_def)
  have later: "fst (handle (serve ?d' reqs) now' (GET ad_id)) = not_found" if "ad_id < seq d" for reqs
  proof -
    from that gone have "retired ad_id ?d'"
      by (simp add: retired_def)
    then have "retired ad_id (serve ?d' reqs)"
      by (rule retired_serve)
    then show ?thesis
      by (simp add: retired_def get)
  qed
  from del get[OF gone] later show ?thesis
    by simp
qed

theorem delete_then_get_witness:
  "1 \<in> id_col ` set (rows example_db2) \<and>
   fst (handle example_db2 example_time (DELETE 1)) = JsonResponse 200 success \<and>
   rows (snd (handle example_db2 example_time (DELETE 1))) = [example_ad2] \<and>
   fst (handle (snd (handle example_db2 example_time (DELETE 1))) example_time (GET 1)) = not_found \<and>
   fst (handle (serve (snd (handle example_db2 example_time (DELETE 1)))
                  [(example_time, POST example_payload)]) example_time (GET 1)) = not_found"
proof -
  have m: "1 \<in> id_col ` set (rows example_db2)"
    by (simp add: example_db2_def example_ad1_def example_ad2_def)
  have s: "(1::int) < seq example_db2"
    by (simp add: example_db2_def)
  have f: "filter (\<lambda>r. id_col r \<noteq> 1) (rows example_db2) = [example_ad2]"
    by (simp add: example_db2_def example_ad1_def example_ad2_def)
  from delete_then_get[OF m, of example_time example_time] m s f show ?thesis
    by (simp del: serve.simps)
qed

section \<open>PATCH with the empty object\<close>

text \<open>
  C10: for every existing id, PATCH with the empty object \<open>{}\<close> answers 200 with
  \<open>{status: "success"}\<close> and leaves the whole database, hence every field of the stored
  record, unchanged.
\<close>

theorem patch_empty_object_identity:
  assumes "ad_id \<in> id_col ` set (rows d)"
  shows "handle d now (PATCH ad_id (JObject [])) = (JsonResponse 200 success, d)"
proof -
  from assms obtain ad where "get_ad d ad_id = Inr ad"
    by (auto simp: get_ad_Inr_iff)
  then show ?thesis
    by (simp add: handle_def AdView_patch_def validate_PatchAd_empty assign_name_def
        assign_body_def dict_get_def truthy_def update_ad_def)
qed

theorem patch_empty_object_identity_witness:
  "2 \<in> id_col ` set (rows example_db2) \<and>
   handle example_db2 example_time (PATCH 2 (JObject [])) = (JsonResponse 200 success, example_db2)"
proof -
  have m: "2 \<in> id_col ` set (rows example_db2)"
    by (simp add: example_db2_def example_ad1_def example_ad2_def)
  from patch_empty_object_identity[OF m] m show ?thesis
    by simp
qed

section \<open>What PATCH writes\<close>




section \<open>PATCH with an empty string\<close>




end
